theory Spec2Isabelle
  imports Complex_Main "HOL-Library.Word" "HOL-Library.AList"
begin

section \<open>Image scan of a disk image (main.py)\<close>

text \<open>
  The program walks the file tree of a disk image and compares every file that carries an
  image extension with each reference image of a local folder. The functions of
  \<^verbatim>\<open>main.py\<close> are embedded below under their own names; a loop or a
  \<^verbatim>\<open>try\<close> block that the source writes inside a function is a function of
  its own here. What the program obtains from its libraries (dfvfs for the file tree, the
  operating system for the reference folder and for writing files, PIL for decoding) enters
  the model as data: the file tree is a finite value, and every call that can raise carries
  its outcome, an exception or a value. The interpreter's recursion limit and the exhaustion
  of memory are not modelled, and neither is the reading of the command line.
\<close>

subsection \<open>Exceptions, floats and printed lines\<close>

datatype exn =
  KeyError string
  | ValueError string
  | OSError string
  | UnidentifiedImageError string

text \<open>
  A Python float: \<open>NaN\<close>, or a finite value. The rounding of float64 is not modelled, a
  finite value is the exact real number. Comparison with \<open>NaN\<close> is false, as in Python.
\<close>

datatype pyfloat = NaN | Fin real

fun float_lt :: "pyfloat \<Rightarrow> int \<Rightarrow> bool" where
  "float_lt NaN t = False"
| "float_lt (Fin r) t = (r < of_int t)"

text \<open>
  A line written to standard output. \<open>ErrorDetails e\<close> is the line
  \<^verbatim>\<open>Error Details: {e}\<close>, \<open>Traceback e\<close> the text of
  \<^verbatim>\<open>traceback.format_exc()\<close>, and \<open>Stat p d\<close> the report line
  \<^verbatim>\<open>\t{p:<80} \t\t difference: {d}\<close>.
\<close>

datatype line =
  Text string
  | ErrorDetails exn
  | Traceback exn
  | Stat string pyfloat

subsection \<open>Strings and paths (str and os.path)\<close>

definition lower_char :: "char \<Rightarrow> char" where
  "lower_char c =
     (let n = (of_char c :: nat) in if 65 \<le> n \<and> n \<le> 90 then char_of (n + 32) else c)"

definition lower :: "string \<Rightarrow> string" where
  "lower s = map lower_char s"

definition endswith :: "string \<Rightarrow> string list \<Rightarrow> bool" where
  "endswith s sufs =
     list_ex (\<lambda>suf. length suf \<le> length s \<and> drop (length s - length suf) s = suf) sufs"

fun rfind :: "string \<Rightarrow> char \<Rightarrow> int" where
  "rfind [] c = - 1"
| "rfind (x # xs) c =
     (let r = rfind xs c in if 0 \<le> r then r + 1 else if x = c then 0 else - 1)"

text \<open>
  \<^verbatim>\<open>os.path.splitext\<close>: the extension starts at the last dot of the last path
  component, unless that component has only dots before it.
\<close>

definition splitext :: "string \<Rightarrow> string \<times> string" where
  "splitext p =
     (let sepIndex = rfind p (CHR ''/'');
          dotIndex = rfind p (CHR ''.'')
      in if sepIndex < dotIndex \<and>
            list_ex (\<lambda>c. c \<noteq> CHR ''.'')
              (take (nat (dotIndex - (sepIndex + 1))) (drop (nat (sepIndex + 1)) p))
         then (take (nat dotIndex) p, drop (nat dotIndex) p)
         else (p, []))"

definition os_path_join :: "string \<Rightarrow> string \<Rightarrow> string" where
  "os_path_join a b =
     (if b \<noteq> [] \<and> hd b = CHR ''/'' then b
      else if a = [] \<or> last a = CHR ''/'' then a @ b
      else a @ ''/'' @ b)"

definition valid_image_extensions :: "string list" where
  "valid_image_extensions = [''.jpg'', ''.jpeg'', ''.png'', ''.bmp'', ''.gif'', ''.tiff'']"

subsection \<open>Images and their difference (PIL and numpy)\<close>

text \<open>
  A decoded image: \<open>ysize\<close> rows of \<open>xsize\<close> pixels, each pixel one 8-bit sample for
  each of its \<open>bands\<close>.
\<close>

type_synonym sample = "8 word"

record image =
  bands :: nat
  xsize :: nat
  ysize :: nat
  im :: "sample list list list"


definition absdiff :: "sample \<Rightarrow> sample \<Rightarrow> sample" where
  "absdiff a b = (if b \<le> a then a - b else b - a)"

text \<open>
  PIL and numpy are libraries, their code is not part of the program. The score follows the
  description of the scorer: the absolute difference of the two images sample by sample
  (\<^verbatim>\<open>ImageChops.difference\<close>), averaged over all pixels and bands
  (\<^verbatim>\<open>np.mean\<close>). Two facts are PIL's own: it refuses two images with
  different numbers of bands with a \<^verbatim>\<open>ValueError\<close>, and it computes the
  difference of two images of different sizes over the region they share, from the top left
  corner, so that the result has the smaller width and the smaller height. The program
  converts and resizes nothing before it calls the library.
\<close>

definition ImageChops_difference :: "image \<Rightarrow> image \<Rightarrow> exn + image" where
  "ImageChops_difference image1 image2 =
     (if bands image1 \<noteq> bands image2 then Inl (ValueError ''images do not match'')
      else Inr \<lparr>bands = bands image1,
                xsize = min (xsize image1) (xsize image2),
                ysize = min (ysize image1) (ysize image2),
                im = map2 (map2 (map2 absdiff)) (im image1) (im image2)\<rparr>)"

definition np_array :: "image \<Rightarrow> sample list" where
  "np_array i = concat (concat (im i))"

text \<open>\<^verbatim>\<open>np.mean\<close> of an array with no element is \<open>nan\<close>.\<close>

definition np_mean :: "sample list \<Rightarrow> pyfloat" where
  "np_mean xs =
     (if xs = [] then NaN else Fin (real (sum_list (map unat xs)) / real (length xs)))"

definition img_similarity_check :: "image \<Rightarrow> image \<Rightarrow> int \<Rightarrow> exn + (bool \<times> pyfloat)" where
  "img_similarity_check img1 img2 similarity_threshold =
     (case ImageChops_difference img2 img1 of
        Inl e \<Rightarrow> Inl e
      | Inr diff \<Rightarrow>
          (let diff_array = np_array diff;
               mean_diff = np_mean diff_array;
               is_similar = float_lt mean_diff similarity_threshold
           in Inr (is_similar, mean_diff)))"

subsection \<open>The file tree, the libraries and the state\<close>

text \<open>
  A file entry of the disk image. \<open>GetFileObject\<close> is the outcome of opening a file: the
  call raises, returns nothing, or returns an object whose \<open>read\<close> raises or gives the
  bytes. The provider lists the children of a directory without an error.
\<close>

datatype file_entry =
  File (name: string) (location: string) (GetFileObject: "exn + (exn + 8 word list) option")
  | Directory (name: string) (location: string) (sub_file_entries: "file_entry list")

text \<open>
  What the libraries answer. \<open>OpenFileSystem\<close> stands for the opening of the disk image
  up to its root entry, \<open>Image_open_path\<close> and \<open>Image_open\<close> for the decoding
  of a reference file and of the bytes of a file of the disk image (PIL reads the pixels at
  the first use of the image, which for a file of the disk image lies inside the same
  \<^verbatim>\<open>try\<close> block), and \<open>Image_save\<close> for the write of an image
  under a path of the output folder, with the exception it raises, if any.
\<close>

record world =
  OpenFileSystem :: "string \<Rightarrow> exn + file_entry"
  listdir :: "string \<Rightarrow> exn + string list"
  Image_open_path :: "string \<Rightarrow> exn + image"
  Image_open :: "8 word list \<Rightarrow> exn + image"
  Image_save :: "string \<Rightarrow> image \<Rightarrow> exn option"

text \<open>
  The state the program changes: the dictionary \<open>result\<close> (in insertion order), the lines
  printed so far, and the files written to the output folder.
\<close>

type_synonym match = "string \<times> pyfloat"

record state =
  result :: "(string \<times> match list) list"
  out :: "line list"
  saved :: "(string \<times> image) list"

definition print :: "line list \<Rightarrow> state \<Rightarrow> state" where
  "print ls st = st\<lparr>out := out st @ ls\<rparr>"

subsection \<open>Comparing one file with the reference images\<close>

text \<open>
  The body of the loop of \<open>is_image_similar\<close> over the reference images, for one
  reference. It returns the state and the exception it raised, if any.
\<close>

definition compare_reference ::
  "world \<Rightarrow> file_entry \<Rightarrow> image \<Rightarrow> string \<times> image \<Rightarrow> int \<Rightarrow> string \<Rightarrow> state
     \<Rightarrow> state \<times> exn option" where
  "compare_reference w file_entry img reference similarity_threshold output_folder st =
     (case reference of (reference_name, reference_image) \<Rightarrow>
        (case img_similarity_check img reference_image similarity_threshold of
           Inl e \<Rightarrow> (st, Some e)
         | Inr (is_similar, mean_diff) \<Rightarrow>
             if is_similar then
               (case map_of (result st) reference_name of
                  None \<Rightarrow> (st, Some (KeyError reference_name))
                | Some ms \<Rightarrow>
                    (let res_tuple = (location file_entry, mean_diff);
                         st1 = print [Text ''Similar image identified! - See final report'']
                                 (st\<lparr>result :=
                                       AList.update reference_name (ms @ [res_tuple])
                                         (result st)\<rparr>)
                     in if output_folder \<noteq> [] then
                          (let output_file_path = os_path_join output_folder (name file_entry)
                           in case Image_save w output_file_path img of
                                Some e \<Rightarrow> (st1, Some e)
                              | None \<Rightarrow>
                                  (st1\<lparr>saved := saved st1 @ [(output_file_path, img)]\<rparr>,
                                   None))
                        else (st1, None)))
             else (st, None)))"

text \<open>The loop itself: an exception ends it, and the references after it are not reached.\<close>

fun compare_loop ::
  "world \<Rightarrow> file_entry \<Rightarrow> image \<Rightarrow> (string \<times> image) list \<Rightarrow> int \<Rightarrow> string \<Rightarrow> state
     \<Rightarrow> state \<times> exn option" where
  "compare_loop w file_entry img [] similarity_threshold output_folder st = (st, None)"
| "compare_loop w file_entry img (reference # rest) similarity_threshold output_folder st =
     (case compare_reference w file_entry img reference similarity_threshold output_folder st of
        (st', Some e) \<Rightarrow> (st', Some e)
      | (st', None) \<Rightarrow>
          compare_loop w file_entry img rest similarity_threshold output_folder st')"

text \<open>The body of the \<^verbatim>\<open>try\<close> block of \<open>is_image_similar\<close>.\<close>

definition is_image_similar_try ::
  "world \<Rightarrow> file_entry \<Rightarrow> (string \<times> image) list \<Rightarrow> int \<Rightarrow> string \<Rightarrow> state
     \<Rightarrow> state \<times> exn option" where
  "is_image_similar_try w file_entry reference_image_list similarity_threshold output_folder st =
     (let file_ext = lower (snd (splitext (location file_entry)))
      in if file_ext \<notin> set valid_image_extensions then (st, None)
         else case GetFileObject file_entry of
                Inl e \<Rightarrow> (st, Some e)
              | Inr None \<Rightarrow> (st, None)
              | Inr (Some (Inl e)) \<Rightarrow> (st, Some e)
              | Inr (Some (Inr file_content)) \<Rightarrow>
                  (case Image_open w file_content of
                     Inl e \<Rightarrow> (st, Some e)
                   | Inr img \<Rightarrow>
                       compare_loop w file_entry img reference_image_list
                         similarity_threshold output_folder st))"

definition is_image_similar ::
  "world \<Rightarrow> file_entry \<Rightarrow> (string \<times> image) list \<Rightarrow> int \<Rightarrow> string \<Rightarrow> state \<Rightarrow> state" where
  "is_image_similar w file_entry reference_image_list similarity_threshold output_folder st =
     (case is_image_similar_try w file_entry reference_image_list similarity_threshold
             output_folder st of
        (st', None) \<Rightarrow> st'
      | (st', Some e) \<Rightarrow>
          print [Text (''Error while comparing image: '' @ location file_entry),
                 ErrorDetails e, Traceback e] st')"

subsection \<open>Walking the tree\<close>

fun traverse_file_entries ::
  "world \<Rightarrow> file_entry \<Rightarrow> (string \<times> image) list \<Rightarrow> int \<Rightarrow> string \<Rightarrow> state \<Rightarrow> state"
  and traverse_sub_file_entries ::
  "world \<Rightarrow> file_entry list \<Rightarrow> (string \<times> image) list \<Rightarrow> int \<Rightarrow> string \<Rightarrow> state \<Rightarrow> state"
  where
  "traverse_file_entries w (File n l c) reference_image_list similarity_threshold
       output_folder st =
     is_image_similar w (File n l c) reference_image_list similarity_threshold output_folder st"
| "traverse_file_entries w (Directory n l subs) reference_image_list similarity_threshold
       output_folder st =
     traverse_sub_file_entries w subs reference_image_list similarity_threshold output_folder st"
| "traverse_sub_file_entries w [] reference_image_list similarity_threshold output_folder st =
     st"
| "traverse_sub_file_entries w (sub_file_entry # rest) reference_image_list
       similarity_threshold output_folder st =
     traverse_sub_file_entries w rest reference_image_list similarity_threshold output_folder
       (traverse_file_entries w sub_file_entry reference_image_list similarity_threshold
          output_folder st)"

subsection \<open>Loading the reference images and running the scan\<close>

text \<open>
  The loop of \<open>find_similar_images\<close> over the names of the reference folder. It fills
  the dictionary \<open>reference_image_list\<close> and gives every reference an empty list in
  \<open>result\<close>. It returns the exception that ended it, if any, and both dictionaries.
\<close>

fun load_loop ::
  "world \<Rightarrow> string \<Rightarrow> string list \<Rightarrow> (string \<times> image) list \<Rightarrow> state
     \<Rightarrow> exn option \<times> (string \<times> image) list \<times> state" where
  "load_loop w reference_image_folder_path [] reference_image_list st =
     (None, reference_image_list, st)"
| "load_loop w reference_image_folder_path (filename # rest) reference_image_list st =
     (if endswith (lower filename) valid_image_extensions then
        (let file_path = os_path_join reference_image_folder_path filename
         in case Image_open_path w file_path of
              Inl e \<Rightarrow> (Some e, reference_image_list, st)
            | Inr img \<Rightarrow>
                load_loop w reference_image_folder_path rest
                  (AList.update file_path img reference_image_list)
                  (st\<lparr>result := AList.update file_path [] (result st)\<rparr>))
      else load_loop w reference_image_folder_path rest reference_image_list st)"

definition load_reference_images ::
  "world \<Rightarrow> string \<Rightarrow> state \<Rightarrow> exn option \<times> (string \<times> image) list \<times> state" where
  "load_reference_images w reference_image_folder_path st =
     (case listdir w reference_image_folder_path of
        Inl e \<Rightarrow> (Some e, [], st)
      | Inr filenames \<Rightarrow> load_loop w reference_image_folder_path filenames [] st)"

text \<open>
  \<open>find_similar_images\<close>. The dictionary \<open>result\<close> that the caller passes is part of
  the state. An exception of the file system provider is not caught and leaves the function.
\<close>

definition find_similar_images ::
  "world \<Rightarrow> string \<Rightarrow> string \<Rightarrow> int \<Rightarrow> string \<Rightarrow> state \<Rightarrow> exn + state" where
  "find_similar_images w disk_img_path reference_image_folder_path similarity_threshold
       output_folder st =
     (case OpenFileSystem w disk_img_path of
        Inl e \<Rightarrow> Inl e
      | Inr root_file_entry \<Rightarrow>
          (case load_reference_images w reference_image_folder_path
                  (print [Text ''File system parse completed.''] st) of
             (Some e, reference_image_list, st') \<Rightarrow>
               Inr (print [Text ''Error while loading image: '', ErrorDetails e, Traceback e]
                      st')
           | (None, reference_image_list, st') \<Rightarrow>
               Inr (traverse_file_entries w root_file_entry reference_image_list
                      similarity_threshold output_folder
                      (print [Text ''Reference images loading completed.'',
                              Text ''Disk root directory loading completed.'',
                              Text (''Start scanning similar images on the disk image - '' @
                                    ''it may take a long time depending on the size of disk.'')]
                         st'))))"

definition no_matches_notice :: line where
  "no_matches_notice =
     Text (''No similar images identified. '' @
           ''Try to adjust threshold or add more reference images.'')"

definition final_report :: "(string \<times> match list) list \<Rightarrow> line list" where
  "final_report res =
     (if length res \<noteq> 0 then [Text ''Final Report: '']
      else [no_matches_notice]) @
     concat (map (\<lambda>(reference_image_name, similar_images).
                    if length similar_images \<noteq> 0
                    then Text (''For reference Image '' @ reference_image_name @ '': '') #
                         map (\<lambda>stat. Stat (fst stat) (snd stat)) similar_images
                    else []) res)"

text \<open>
  The main program from the creation of \<open>result\<close> on, with the options already read. It
  gives the exit code of the process and the lines of standard output: an exception that
  nothing catches ends the process with code 1, the end of the script with code 0.
\<close>

definition initial_state :: state where
  "initial_state = \<lparr>result = [], out = [], saved = []\<rparr>"

definition main_body :: "world \<Rightarrow> string \<Rightarrow> string \<Rightarrow> int \<Rightarrow> string \<Rightarrow> nat \<times> line list" where
  "main_body w disk_image_path reference_image_folder_path similarity_threshold output_folder =
     (case find_similar_images w disk_image_path reference_image_folder_path
             similarity_threshold output_folder initial_state of
        Inl e \<Rightarrow> (1, [])
      | Inr st \<Rightarrow> (0, out st @ final_report (result st)))"

subsection \<open>Notions used to state the properties\<close>

text \<open>
  The leaves of a tree in depth-first order, the children of a directory in the order the
  provider lists them.
\<close>

fun leaves :: "file_entry \<Rightarrow> file_entry list" where
  "leaves (File n l c) = [File n l c]"
| "leaves (Directory n l subs) = concat (map leaves subs)"

text \<open>
  The matches one file gives to the reference \<open>r\<close>: what \<open>is_image_similar\<close> records
  for it when every reference starts with an empty list.
\<close>

definition blank :: "(string \<times> image) list \<Rightarrow> state" where
  "blank reference_image_list =
     \<lparr>result = map (\<lambda>p. (fst p, [])) reference_image_list, out = [], saved = []\<rparr>"

definition found ::
  "world \<Rightarrow> file_entry \<Rightarrow> (string \<times> image) list \<Rightarrow> int \<Rightarrow> string \<Rightarrow> string \<Rightarrow> match list"
  where
  "found w file_entry reference_image_list similarity_threshold output_folder r =
     (case map_of (result (is_image_similar w file_entry reference_image_list
                             similarity_threshold output_folder (blank reference_image_list))) r of
        None \<Rightarrow> []
      | Some ms \<Rightarrow> ms)"

text \<open>All recorded matches, each with the reference it belongs to.\<close>

definition matches :: "state \<Rightarrow> (string \<times> match) list" where
  "matches st = concat (map (\<lambda>(r, ms). map (Pair r) ms) (result st))"

text \<open>
  The loop over the references without the state: the records that its body appends for one
  reference, and whether the body raises; then the records of the whole loop, in the order
  of the references.
\<close>

definition reference_match ::
  "world \<Rightarrow> file_entry \<Rightarrow> image \<Rightarrow> string \<times> image \<Rightarrow> int \<Rightarrow> string
     \<Rightarrow> (string \<times> match) list \<times> bool" where
  "reference_match w file_entry img reference similarity_threshold output_folder =
     (case reference of (reference_name, reference_image) \<Rightarrow>
        (case img_similarity_check img reference_image similarity_threshold of
           Inl e \<Rightarrow> ([], True)
         | Inr (is_similar, mean_diff) \<Rightarrow>
             if is_similar then
               ([(reference_name, (location file_entry, mean_diff))],
                output_folder \<noteq> [] \<and>
                Image_save w (os_path_join output_folder (name file_entry)) img \<noteq> None)
             else ([], False)))"

fun new_matches ::
  "world \<Rightarrow> file_entry \<Rightarrow> image \<Rightarrow> (string \<times> image) list \<Rightarrow> int \<Rightarrow> string
     \<Rightarrow> (string \<times> match) list" where
  "new_matches w file_entry img [] similarity_threshold output_folder = []"
| "new_matches w file_entry img (reference # rest) similarity_threshold output_folder =
     (case reference_match w file_entry img reference similarity_threshold output_folder of
        (ms, True) \<Rightarrow> ms
      | (ms, False) \<Rightarrow>
          ms @ new_matches w file_entry img rest similarity_threshold output_folder)"

text \<open>The matches that \<open>is_image_similar\<close> records for one file, without the state.\<close>

definition entry_matches ::
  "world \<Rightarrow> file_entry \<Rightarrow> (string \<times> image) list \<Rightarrow> int \<Rightarrow> string \<Rightarrow> (string \<times> match) list"
  where
  "entry_matches w file_entry reference_image_list similarity_threshold output_folder =
     (if lower (snd (splitext (location file_entry))) \<notin> set valid_image_extensions then []
      else case GetFileObject file_entry of
             Inr (Some (Inr file_content)) \<Rightarrow>
               (case Image_open w file_content of
                  Inl e \<Rightarrow> []
                | Inr img \<Rightarrow>
                    new_matches w file_entry img reference_image_list similarity_threshold
                      output_folder)
           | _ \<Rightarrow> [])"


text \<open>The matches of a whole run that starts as the main program does.\<close>

definition scan_matches ::
  "world \<Rightarrow> string \<Rightarrow> string \<Rightarrow> int \<Rightarrow> string \<Rightarrow> (string \<times> match) list" where
  "scan_matches w disk_img_path reference_image_folder_path similarity_threshold output_folder =
     (case find_similar_images w disk_img_path reference_image_folder_path
             similarity_threshold output_folder initial_state of
        Inl e \<Rightarrow> []
      | Inr st \<Rightarrow> matches st)"

subsection \<open>Example inputs\<close>

text \<open>
  Images of one row: \<open>gray v\<close> has one pixel of value \<open>v\<close>, \<open>wide\<close> two black
  pixels, \<open>rgb\<close> one black pixel of three bands.
\<close>

definition gray :: "sample \<Rightarrow> image" where
  "gray v = \<lparr>bands = 1, xsize = 1, ysize = 1, im = [[[v]]]\<rparr>"

definition wide :: image where
  "wide = \<lparr>bands = 1, xsize = 2, ysize = 1, im = [[[0], [0]]]\<rparr>"

definition rgb :: image where
  "rgb = \<lparr>bands = 3, xsize = 1, ysize = 1, im = [[[0, 0, 0]]]\<rparr>"

text \<open>
  A disk image with four files. The first byte of a file is the value of its single pixel,
  and a file without bytes does not decode.
\<close>

definition example_file :: file_entry where
  "example_file = File ''a.jpg'' ''/pics/a.jpg'' (Inr (Some (Inr [0])))"

definition example_root :: file_entry where
  "example_root =
     Directory [] ''/''
       [Directory ''pics'' ''/pics'' [example_file],
        File ''bad.jpg'' ''/bad.jpg'' (Inr (Some (Inr []))),
        Directory ''docs'' ''/docs''
          [File ''readme.txt'' ''/docs/readme.txt'' (Inr (Some (Inr [1])))],
        File ''b.PNG'' ''/b.PNG'' (Inr (Some (Inr [3])))]"

text \<open>
  A world with the example disk image, a reference folder that lists \<open>names\<close>, and an
  output folder where every write has the outcome \<open>saving\<close>. The reference
  \<^verbatim>\<open>r5.png\<close> is \<open>gray 5\<close>, \<^verbatim>\<open>wide.png\<close> is
  \<open>wide\<close>, \<^verbatim>\<open>rgb.png\<close> is \<open>rgb\<close>, and any other is
  \<open>gray 0\<close>.
\<close>

definition example_world :: "string list \<Rightarrow> exn option \<Rightarrow> world" where
  "example_world names saving =
     \<lparr>OpenFileSystem = (\<lambda>p. Inr example_root),
      listdir = (\<lambda>p. Inr names),
      Image_open_path =
        (\<lambda>p. if p = ''refs/r5.png'' then Inr (gray 5)
              else if p = ''refs/wide.png''
                then Inr \<lparr>bands = 1, xsize = 2, ysize = 1, im = [[[0], [0]]]\<rparr>
              else if p = ''refs/rgb.png''
                then Inr \<lparr>bands = 3, xsize = 1, ysize = 1, im = [[[0, 0, 0]]]\<rparr>
              else Inr (gray 0)),
      Image_open =
        (\<lambda>bs. case bs of
                 [] \<Rightarrow> Inl (UnidentifiedImageError ''cannot identify image file'')
               | b # _ \<Rightarrow> Inr (gray b)),
      Image_save = (\<lambda>p i. saving)\<rparr>"


definition example_refs :: "(string \<times> image) list" where
  "example_refs = [(''refs/r0.png'', gray 0), (''refs/r5.png'', gray 5)]"

definition example_refs3 :: "(string \<times> image) list" where
  "example_refs3 = [(''refs/r0.png'', gray 0), (''refs/rgb.png'', rgb), (''refs/r5.png'', gray 5)]"

definition example_names :: "string list" where
  "example_names = [''r5.png'', ''notes.txt'', ''r0.png'']"

section \<open>Properties\<close>

subsection \<open>Scoring\<close>







subsection \<open>The loop over the reference images\<close>

lemma compare_loop_append:
  "compare_loop w fe img (xs @ ys) t ofo st =
     (case compare_loop w fe img xs t ofo st of
        (st1, None) \<Rightarrow> compare_loop w fe img ys t ofo st1
      | (st1, Some e) \<Rightarrow> (st1, Some e))"
  by (induction xs arbitrary: st) (auto split: prod.splits option.splits)






subsection \<open>The records of one file and of a traversal\<close>

text \<open>The traversal is a fold over the leaves, and no step changes the keys of \<open>result\<close>.\<close>

lemma traverse_as_fold:
  "traverse_file_entries w fe refs t ofo st =
     foldl (\<lambda>s e. is_image_similar w e refs t ofo s) st (leaves fe)"
  "traverse_sub_file_entries w es refs t ofo st =
     foldl (\<lambda>s e. is_image_similar w e refs t ofo s) st (concat (map leaves es))"
  by (induction w fe refs t ofo st and w es refs t ofo st
      rule: traverse_file_entries_traverse_sub_file_entries.induct) simp_all

lemma key_lookup: "k \<in> fst ` set al \<Longrightarrow> \<exists>v. map_of al k = Some v"
  by (cases "map_of al k") (auto simp: map_of_eq_None_iff)

lemma update_keys_present:
  "map_of al k = Some v \<Longrightarrow> map fst (AList.update k v' al) = map fst al"
  by (auto simp: update_keys dest: map_of_SomeD intro: rev_image_eqI)

lemma compare_reference_keys:
  "map fst (result (fst (compare_reference w fe img x t ofo st))) = map fst (result st)"
  by (auto simp: compare_reference_def Let_def print_def update_keys_present
      split: sum.splits prod.splits option.splits)

lemma compare_loop_keys:
  "map fst (result (fst (compare_loop w fe img refs t ofo st))) = map fst (result st)"
proof (induction refs arbitrary: st)
  case Nil
  then show ?case by simp
next
  case (Cons x xs)
  show ?case
  proof (cases "compare_reference w fe img x t ofo st")
    case (Pair st' r)
    with compare_reference_keys [of w fe img x t ofo st]
    have "map fst (result st') = map fst (result st)" by simp
    with Pair Cons.IH [of st'] show ?thesis
      by (cases r) simp_all
  qed
qed

lemma is_image_similar_keys:
  "map fst (result (is_image_similar w e refs t ofo st)) = map fst (result st)"
proof -
  have "map fst (result (fst (is_image_similar_try w e refs t ofo st))) = map fst (result st)"
    using compare_loop_keys [of w e _ refs t ofo st]
    by (auto simp: is_image_similar_try_def Let_def split: sum.splits option.splits)
  then show ?thesis
    by (auto simp: is_image_similar_def print_def split: prod.splits option.splits)
qed

lemma fold_keys:
  "map fst (result (foldl (\<lambda>s e. is_image_similar w e refs t ofo s) st es)) = map fst (result st)"
  by (induction es arbitrary: st) (simp_all add: is_image_similar_keys)

lemma reference_match_names:
  "fst ` set (fst (reference_match w fe img x t ofo)) \<subseteq> {fst x}"
  by (auto simp: reference_match_def split: sum.splits prod.splits if_splits)

lemma new_matches_names:
  "fst ` set (new_matches w fe img refs t ofo) \<subseteq> fst ` set refs"
proof (induction refs)
  case Nil
  then show ?case by simp
next
  case (Cons x xs)
  obtain ms b where rm: "reference_match w fe img x t ofo = (ms, b)"
    by (cases "reference_match w fe img x t ofo")
  with reference_match_names [of w fe img x t ofo] have "fst ` set ms \<subseteq> {fst x}" by simp
  with Cons.IH rm show ?case by (cases b) auto
qed

lemma compare_reference_match:
  assumes "fst x \<in> fst ` set (result st)"
  shows "map_of (result (fst (compare_reference w fe img x t ofo st))) r =
         map_option (\<lambda>ms. ms @ map snd (filter (\<lambda>p. fst p = r) (fst (reference_match w fe img x t ofo))))
           (map_of (result st) r)"
    and "(snd (compare_reference w fe img x t ofo st) \<noteq> None) = snd (reference_match w fe img x t ofo)"
proof -
  obtain rn ri where x: "x = (rn, ri)" by (cases x)
  from assms key_lookup obtain ms where ms: "map_of (result st) rn = Some ms"
    unfolding x by fastforce
  show "map_of (result (fst (compare_reference w fe img x t ofo st))) r =
         map_option (\<lambda>ms. ms @ map snd (filter (\<lambda>p. fst p = r) (fst (reference_match w fe img x t ofo))))
           (map_of (result st) r)"
    using ms
    by (auto simp: x compare_reference_def reference_match_def Let_def print_def update_conv'
        option.map_ident split: sum.splits option.splits)
  show "(snd (compare_reference w fe img x t ofo st) \<noteq> None) = snd (reference_match w fe img x t ofo)"
    using ms
    by (auto simp: x compare_reference_def reference_match_def Let_def print_def
        split: sum.splits option.splits)
qed

lemma compare_loop_result:
  assumes "fst ` set refs \<subseteq> fst ` set (result st)"
  shows "map_of (result (fst (compare_loop w fe img refs t ofo st))) r =
         map_option (\<lambda>ms. ms @ map snd (filter (\<lambda>x. fst x = r) (new_matches w fe img refs t ofo)))
           (map_of (result st) r)"
  using assms
proof (induction refs arbitrary: st)
  case Nil
  then show ?case by (simp add: option.map_ident)
next
  case (Cons x xs)
  from Cons.prems have kx: "fst x \<in> fst ` set (result st)" by auto
  obtain st' e where cr: "compare_reference w fe img x t ofo st = (st', e)"
    by (cases "compare_reference w fe img x t ofo st")
  obtain ms b where rm: "reference_match w fe img x t ofo = (ms, b)"
    by (cases "reference_match w fe img x t ofo")
  from compare_reference_match [OF kx, of w fe img t ofo] cr rm
  have step: "map_of (result st') r =
      map_option (\<lambda>l. l @ map snd (filter (\<lambda>p. fst p = r) ms)) (map_of (result st) r)"
    and stop: "(e \<noteq> None) = b"
    by simp_all
  from compare_reference_keys [of w fe img x t ofo st] cr
  have "map fst (result st') = map fst (result st)" by simp
  then have "set (map fst (result st')) = set (map fst (result st))" by simp
  with Cons.prems have keys: "fst ` set xs \<subseteq> fst ` set (result st')" by auto
  show ?case
  proof (cases e)
    case None
    with stop have "\<not> b" by simp
    with None cr rm step Cons.IH [OF keys] show ?thesis
      by (simp add: option.map_comp comp_def)
  next
    case (Some err)
    with stop have b by simp
    with Some cr rm step show ?thesis by simp
  qed
qed

lemma is_image_similar_result:
  assumes "fst ` set refs \<subseteq> fst ` set (result st)"
  shows "map_of (result (is_image_similar w e refs t ofo st)) r =
         map_option (\<lambda>ms. ms @ map snd (filter (\<lambda>x. fst x = r) (entry_matches w e refs t ofo)))
           (map_of (result st) r)"
proof -
  have "map_of (result (fst (is_image_similar_try w e refs t ofo st))) r =
         map_option (\<lambda>ms. ms @ map snd (filter (\<lambda>x. fst x = r) (entry_matches w e refs t ofo)))
           (map_of (result st) r)"
    using compare_loop_result [OF assms, of w e _ t ofo r]
    by (auto simp: is_image_similar_try_def entry_matches_def Let_def option.map_ident
        split: sum.splits option.splits)
  then show ?thesis
    by (auto simp: is_image_similar_def print_def split: prod.splits option.splits)
qed

lemma entry_matches_names:
  "fst ` set (entry_matches w e refs t ofo) \<subseteq> fst ` set refs"
  using new_matches_names [of w e _ refs t ofo]
  by (auto simp: entry_matches_def split: sum.splits option.splits)

lemma map_of_blank:
  "map_of (result (blank refs)) r = (if r \<in> fst ` set refs then Some [] else None)"
  by (induction refs) (auto simp: blank_def)

lemma found_conv:
  "found w e refs t ofo r = map snd (filter (\<lambda>x. fst x = r) (entry_matches w e refs t ofo))"
proof -
  have keys: "fst ` set refs \<subseteq> fst ` set (result (blank refs))"
    by (force simp: blank_def)
  show ?thesis
  proof (cases "r \<in> fst ` set refs")
    case True
    then show ?thesis
      by (simp add: found_def is_image_similar_result [OF keys] map_of_blank)
  next
    case False
    with entry_matches_names [of w e refs t ofo]
    have "filter (\<lambda>x. fst x = r) (entry_matches w e refs t ofo) = []"
      by (auto simp: filter_empty_conv)
    with False show ?thesis
      by (simp add: found_def is_image_similar_result [OF keys] map_of_blank)
  qed
qed

lemma fold_result:
  assumes "fst ` set refs \<subseteq> fst ` set (result st)"
  shows "map_of (result (foldl (\<lambda>s e. is_image_similar w e refs t ofo s) st es)) r =
         map_option (\<lambda>ms. ms @ concat (map (\<lambda>e. found w e refs t ofo r) es)) (map_of (result st) r)"
  using assms
proof (induction es arbitrary: st)
  case Nil
  then show ?case by (simp add: option.map_ident)
next
  case (Cons e es)
  let ?st = "is_image_similar w e refs t ofo st"
  from is_image_similar_keys [of w e refs t ofo st]
  have "set (map fst (result ?st)) = set (map fst (result st))" by simp
  with Cons.prems have keys: "fst ` set refs \<subseteq> fst ` set (result ?st)" by auto
  show ?case
    by (simp add: Cons.IH [OF keys] is_image_similar_result [OF Cons.prems] found_conv
        option.map_comp comp_def)
qed



subsection \<open>Errors of one file\<close>

lemma is_image_similar_decode_failure:
  assumes "lower (snd (splitext l)) \<in> set valid_image_extensions"
    and "Image_open w content = Inl e"
  shows "is_image_similar w (File n l (Inr (Some (Inr content)))) refs t ofo st =
         print [Text (''Error while comparing image: '' @ l), ErrorDetails e, Traceback e] st"
  using assms by (simp add: is_image_similar_def is_image_similar_try_def)

text \<open>
  C6. A file with an image extension whose bytes are read but do not decode is skipped:
  \<open>is_image_similar\<close> prints the three lines of the error and changes nothing else,
  so that no match is recorded for the file. The traversal of a tree that holds the file
  goes on with all the leaves after it.
\<close>

theorem decode_failure_is_soft:
  assumes ext: "lower (snd (splitext l)) \<in> set valid_image_extensions"
    and decode: "Image_open w content = Inl e"
    and pos: "leaves tree = before @ File n l (Inr (Some (Inr content))) # after"
  shows "is_image_similar w (File n l (Inr (Some (Inr content)))) refs t ofo st =
           print [Text (''Error while comparing image: '' @ l), ErrorDetails e, Traceback e] st \<and>
         traverse_file_entries w tree refs t ofo st0 =
           foldl (\<lambda>s e. is_image_similar w e refs t ofo s)
             (print [Text (''Error while comparing image: '' @ l), ErrorDetails e, Traceback e]
                (foldl (\<lambda>s e. is_image_similar w e refs t ofo s) st0 before))
             after"
  by (simp add: traverse_as_fold pos is_image_similar_decode_failure [OF ext decode])

theorem decode_failure_is_soft_witness:
  "lower (snd (splitext ''/bad.jpg'')) \<in> set valid_image_extensions \<and>
   Image_open (example_world [] None) [] =
     Inl (UnidentifiedImageError ''cannot identify image file'') \<and>
   leaves example_root =
     [example_file] @ File ''bad.jpg'' ''/bad.jpg'' (Inr (Some (Inr []))) #
     [File ''readme.txt'' ''/docs/readme.txt'' (Inr (Some (Inr [1]))),
      File ''b.PNG'' ''/b.PNG'' (Inr (Some (Inr [3])))] \<and>
   result (traverse_file_entries (example_world [] None) example_root example_refs 4 []
       (blank example_refs)) =
     [(''refs/r0.png'', [(''/pics/a.jpg'', Fin 0), (''/b.PNG'', Fin 3)]),
      (''refs/r5.png'', [(''/b.PNG'', Fin 2)])]"
proof -
  have a: "lower (snd (splitext ''/bad.jpg'')) \<in> set valid_image_extensions"
    by code_simp
  have b: "Image_open (example_world [] None) [] =
      Inl (UnidentifiedImageError ''cannot identify image file'')"
    by (simp add: example_world_def)
  have c: "leaves example_root =
     [example_file] @ File ''bad.jpg'' ''/bad.jpg'' (Inr (Some (Inr []))) #
     [File ''readme.txt'' ''/docs/readme.txt'' (Inr (Some (Inr [1]))),
      File ''b.PNG'' ''/b.PNG'' (Inr (Some (Inr [3])))]"
    by (simp add: example_root_def example_file_def)
  have v: "result (foldl (\<lambda>s e. is_image_similar (example_world [] None) e example_refs 4 [] s)
             (print [Text (''Error while comparing image: '' @ ''/bad.jpg''),
                     ErrorDetails (UnidentifiedImageError ''cannot identify image file''),
                     Traceback (UnidentifiedImageError ''cannot identify image file'')]
                (foldl (\<lambda>s e. is_image_similar (example_world [] None) e example_refs 4 [] s)
                   (blank example_refs) [example_file]))
             [File ''readme.txt'' ''/docs/readme.txt'' (Inr (Some (Inr [1]))),
              File ''b.PNG'' ''/b.PNG'' (Inr (Some (Inr [3])))]) =
     [(''refs/r0.png'', [(''/pics/a.jpg'', Fin 0), (''/b.PNG'', Fin 3)]),
      (''refs/r5.png'', [(''/b.PNG'', Fin 2)])]"
    by code_simp
  from decode_failure_is_soft [OF a b c, of example_refs 4 "[]" _ "blank example_refs"]
  have "traverse_file_entries (example_world [] None) example_root example_refs 4 []
       (blank example_refs) =
      foldl (\<lambda>s e. is_image_similar (example_world [] None) e example_refs 4 [] s)
             (print [Text (''Error while comparing image: '' @ ''/bad.jpg''),
                     ErrorDetails (UnidentifiedImageError ''cannot identify image file''),
                     Traceback (UnidentifiedImageError ''cannot identify image file'')]
                (foldl (\<lambda>s e. is_image_similar (example_world [] None) e example_refs 4 [] s)
                   (blank example_refs) [example_file]))
             [File ''readme.txt'' ''/docs/readme.txt'' (Inr (Some (Inr [1]))),
              File ''b.PNG'' ''/b.PNG'' (Inr (Some (Inr [3])))]"
    by blast
  with a b c v show ?thesis by (simp only: simp_thms)
qed

lemma compare_reference_grows:
  "map_of (result st) r = Some ms \<Longrightarrow>
   \<exists>ms'. map_of (result (fst (compare_reference w fe img x t ofo st))) r = Some (ms @ ms')"
  by (auto simp: compare_reference_def Let_def print_def update_conv'
      split: sum.splits prod.splits option.splits)

lemma is_image_similar_loop_raises:
  assumes "lower (snd (splitext (location fe))) \<in> set valid_image_extensions"
    and "GetFileObject fe = Inr (Some (Inr content))"
    and "Image_open w content = Inr img"
    and "compare_loop w fe img refs t ofo st = (st', Some e)"
  shows "is_image_similar w fe refs t ofo st =
         print [Text (''Error while comparing image: '' @ location fe), ErrorDetails e,
                Traceback e] st'"
  using assms by (simp add: is_image_similar_def is_image_similar_try_def)

text \<open>
  C10. One handler surrounds the whole loop over the references. When the body of the loop
  raises at a reference (in the scoring, in the lookup of the list, or in the save of the
  export), the loop ends there, whatever references follow: they are not scored, and the
  outcome is that of the references up to this one. Every list keeps the records it had
  when this reference was reached, \<open>is_image_similar\<close> prints the error, and the
  traversal goes on with the leaves after the file.
\<close>

theorem exception_ends_candidate_loop:
  assumes ext: "lower (snd (splitext (location fe))) \<in> set valid_image_extensions"
    and content: "GetFileObject fe = Inr (Some (Inr content))"
    and decode: "Image_open w content = Inr img"
    and earlier: "compare_loop w fe img earlier t ofo st = (st1, None)"
    and kth: "compare_reference w fe img kth t ofo st1 = (st2, Some e)"
    and kept: "map_of (result st1) r = Some ms"
    and pos: "leaves tree = before @ fe # after"
    and st: "st = foldl (\<lambda>s e. is_image_similar w e (earlier @ kth # later) t ofo s) st0 before"
  shows "compare_loop w fe img (earlier @ kth # later) t ofo st = (st2, Some e) \<and>
         compare_loop w fe img (earlier @ kth # later) t ofo st =
           compare_loop w fe img (earlier @ [kth]) t ofo st \<and>
         (\<exists>ms'. map_of (result st2) r = Some (ms @ ms')) \<and>
         is_image_similar w fe (earlier @ kth # later) t ofo st =
           print [Text (''Error while comparing image: '' @ location fe), ErrorDetails e,
                  Traceback e] st2 \<and>
         traverse_file_entries w tree (earlier @ kth # later) t ofo st0 =
           foldl (\<lambda>s e. is_image_similar w e (earlier @ kth # later) t ofo s)
             (print [Text (''Error while comparing image: '' @ location fe), ErrorDetails e,
                     Traceback e] st2)
             after"
proof -
  have loop: "compare_loop w fe img (earlier @ kth # rest) t ofo st = (st2, Some e)" for rest
    by (simp add: compare_loop_append earlier kth)
  from compare_reference_grows [OF kept, of w fe img kth t ofo] kth
  have grows: "\<exists>ms'. map_of (result st2) r = Some (ms @ ms')"
    by simp
  note one = is_image_similar_loop_raises [OF ext content decode loop]
  have "traverse_file_entries w tree (earlier @ kth # later) t ofo st0 =
           foldl (\<lambda>s e. is_image_similar w e (earlier @ kth # later) t ofo s)
             (print [Text (''Error while comparing image: '' @ location fe), ErrorDetails e,
                     Traceback e] st2)
             after"
    by (simp add: traverse_as_fold pos one st [symmetric])
  with loop grows one show ?thesis
    by simp
qed

theorem exception_ends_candidate_loop_witness:
  "lower (snd (splitext (location example_file))) \<in> set valid_image_extensions \<and>
   GetFileObject example_file = Inr (Some (Inr [0])) \<and>
   Image_open (example_world [] None) [0] = Inr (gray 0) \<and>
   compare_loop (example_world [] None) example_file (gray 0) [(''refs/r0.png'', gray 0)] 10 []
       (blank example_refs3) =
     (print [Text ''Similar image identified! - See final report'']
        ((blank example_refs3)\<lparr>result :=
           [(''refs/r0.png'', [(''/pics/a.jpg'', Fin 0)]), (''refs/rgb.png'', []),
            (''refs/r5.png'', [])]\<rparr>), None) \<and>
   snd (compare_reference (example_world [] None) example_file (gray 0) (''refs/rgb.png'', rgb)
       10 []
       (print [Text ''Similar image identified! - See final report'']
        ((blank example_refs3)\<lparr>result :=
           [(''refs/r0.png'', [(''/pics/a.jpg'', Fin 0)]), (''refs/rgb.png'', []),
            (''refs/r5.png'', [])]\<rparr>))) = Some (ValueError ''images do not match'') \<and>
   img_similarity_check (gray 0) (gray 5) 10 = Inr (True, Fin 5) \<and>
   leaves example_root = [] @ example_file # tl (leaves example_root) \<and>
   result (traverse_file_entries (example_world [] None) example_root
       ([(''refs/r0.png'', gray 0)] @ (''refs/rgb.png'', rgb) # [(''refs/r5.png'', gray 5)])
       10 [] (blank example_refs3)) =
     [(''refs/r0.png'', [(''/pics/a.jpg'', Fin 0), (''/b.PNG'', Fin 3)]),
      (''refs/rgb.png'', []), (''refs/r5.png'', [])]"
proof -
  let ?w = "example_world [] None"
  let ?st1 = "print [Text ''Similar image identified! - See final report'']
        ((blank example_refs3)\<lparr>result :=
           [(''refs/r0.png'', [(''/pics/a.jpg'', Fin 0)]), (''refs/rgb.png'', []),
            (''refs/r5.png'', [])]\<rparr>)"
  let ?e = "ValueError ''images do not match''"
  let ?refs = "[(''refs/r0.png'', gray 0)] @ (''refs/rgb.png'', rgb) # [(''refs/r5.png'', gray 5)]"
  have a: "lower (snd (splitext (location example_file))) \<in> set valid_image_extensions"
    by code_simp
  have b: "GetFileObject example_file = Inr (Some (Inr [0]))"
    by (simp add: example_file_def)
  have c: "Image_open ?w [0] = Inr (gray 0)"
    by (simp add: example_world_def)
  have d: "compare_loop ?w example_file (gray 0) [(''refs/r0.png'', gray 0)] 10 []
       (blank example_refs3) = (?st1, None)"
    by code_simp
  have e: "compare_reference ?w example_file (gray 0) (''refs/rgb.png'', rgb) 10 [] ?st1 =
       (?st1, Some ?e)"
    by code_simp
  have f: "map_of (result ?st1) ''refs/r0.png'' = Some [(''/pics/a.jpg'', Fin 0)]"
    by (simp add: print_def)
  have g: "leaves example_root = [] @ example_file # tl (leaves example_root)"
    by (simp add: example_root_def example_file_def)
  have h: "blank example_refs3 = foldl (\<lambda>s e. is_image_similar ?w e ?refs 10 [] s)
       (blank example_refs3) []"
    by simp
  have s: "img_similarity_check (gray 0) (gray 5) 10 = Inr (True, Fin 5)"
    by code_simp
  have v: "result (foldl (\<lambda>s e. is_image_similar ?w e ?refs 10 [] s)
             (print [Text (''Error while comparing image: '' @ location example_file),
                     ErrorDetails ?e, Traceback ?e] ?st1)
             (tl (leaves example_root))) =
     [(''refs/r0.png'', [(''/pics/a.jpg'', Fin 0), (''/b.PNG'', Fin 3)]),
      (''refs/rgb.png'', []), (''refs/r5.png'', [])]"
    by code_simp
  from exception_ends_candidate_loop [OF a b c d e f g h]
  have "traverse_file_entries ?w example_root ?refs 10 [] (blank example_refs3) =
      foldl (\<lambda>s e. is_image_similar ?w e ?refs 10 [] s)
             (print [Text (''Error while comparing image: '' @ location example_file),
                     ErrorDetails ?e, Traceback ?e] ?st1)
             (tl (leaves example_root))"
    by blast
  with a b c d e g s v show ?thesis
    by (simp only: simp_thms snd_conv)
qed

subsection \<open>The keys of the result\<close>

lemma update_all_empty:
  "list_all (\<lambda>p. snd p = []) al \<Longrightarrow> list_all (\<lambda>p. snd p = []) (AList.update k [] al)"
  by (induction al) auto

lemma load_loop_keys:
  assumes "map fst (result st) = map fst refs"
    and "load_loop w folder names refs st = (x, refs', st')"
  shows "map fst (result st') = map fst refs'"
  using assms
proof (induction names arbitrary: refs st)
  case Nil
  then show ?case by simp
next
  case (Cons f fs)
  show ?case
  proof (cases "endswith (lower f) valid_image_extensions")
    case False
    with Cons show ?thesis by simp
  next
    case True
    show ?thesis
    proof (cases "Image_open_path w (os_path_join folder f)")
      case (Inl e)
      with True Cons.prems show ?thesis by (auto simp: Let_def)
    next
      case (Inr img)
      let ?p = "os_path_join folder f"
      from Cons.prems(1)
      have "map fst (result (st\<lparr>result := AList.update ?p [] (result st)\<rparr>)) =
          map fst (AList.update ?p img refs)"
        by (simp add: update_keys)
      from Cons.IH [OF this] True Inr Cons.prems(2) show ?thesis
        by (simp add: Let_def)
    qed
  qed
qed

lemma load_loop_empty:
  assumes "list_all (\<lambda>p. snd p = []) (result st)"
    and "load_loop w folder names refs st = (x, refs', st')"
  shows "list_all (\<lambda>p. snd p = []) (result st')"
  using assms
proof (induction names arbitrary: refs st)
  case Nil
  then show ?case by simp
next
  case (Cons f fs)
  show ?case
  proof (cases "endswith (lower f) valid_image_extensions")
    case False
    with Cons show ?thesis by simp
  next
    case True
    show ?thesis
    proof (cases "Image_open_path w (os_path_join folder f)")
      case (Inl e)
      with True Cons.prems show ?thesis by (auto simp: Let_def)
    next
      case (Inr img)
      let ?p = "os_path_join folder f"
      from Cons.prems(1)
      have "list_all (\<lambda>p. snd p = []) (result (st\<lparr>result := AList.update ?p [] (result st)\<rparr>))"
        by (simp add: update_all_empty)
      from Cons.IH [OF this] True Inr Cons.prems(2) show ?thesis
        by (simp add: Let_def)
    qed
  qed
qed

lemma load_reference_images_keys:
  assumes "result st = []"
    and "load_reference_images w folder st = (x, refs, st')"
  shows "map fst (result st') = map fst refs" and "list_all (\<lambda>p. snd p = []) (result st')"
proof -
  show "map fst (result st') = map fst refs"
  proof (cases "listdir w folder")
    case (Inl e)
    with assms show ?thesis by (auto simp: load_reference_images_def)
  next
    case (Inr names)
    with assms have "load_loop w folder names [] st = (x, refs, st')"
      by (simp add: load_reference_images_def)
    with assms(1) load_loop_keys [of st "[]" w folder names x refs st'] show ?thesis
      by simp
  qed
  show "list_all (\<lambda>p. snd p = []) (result st')"
  proof (cases "listdir w folder")
    case (Inl e)
    with assms show ?thesis by (auto simp: load_reference_images_def)
  next
    case (Inr names)
    with assms have "load_loop w folder names [] st = (x, refs, st')"
      by (simp add: load_reference_images_def)
    with assms(1) load_loop_empty [of st w folder names "[]" x refs st'] show ?thesis
      by simp
  qed
qed

lemma all_empty_lookup:
  "list_all (\<lambda>p. snd p = []) al \<Longrightarrow> r \<in> fst ` set al \<Longrightarrow> map_of al r = Some []"
  by (induction al) auto

text \<open>
  C8. The main program starts with an empty \<open>result\<close>. After the loading of the
  reference images the keys of \<open>result\<close> are the names of the loaded references, in the
  same order, each with an empty list. The keys are the same after any number of files of the
  scan and at the end of the run, where the list of a reference holds the matches found for
  it in the leaves of the tree: a reference without a match is still a key, with an empty
  list.
\<close>

theorem result_keys_are_references:
  assumes fs: "OpenFileSystem w d = Inr tree"
    and empty: "result st0 = []"
    and load: "load_reference_images w folder (print [Text ''File system parse completed.''] st0)
                 = (x, refs, st1)"
  shows "\<exists>st. find_similar_images w d folder t ofo st0 = Inr st \<and>
           map fst (result st1) = map fst refs \<and>
           list_all (\<lambda>p. snd p = []) (result st1) \<and>
           map fst (result (foldl (\<lambda>s e. is_image_similar w e refs t ofo s) st1 es)) =
             map fst refs \<and>
           map fst (result st) = map fst refs \<and>
           (\<forall>r \<in> fst ` set refs.
              map_of (result st) r =
                Some (if x = None
                      then concat (map (\<lambda>e. found w e refs t ofo r) (leaves tree))
                      else []))"
proof -
  have e0: "result (print [Text ''File system parse completed.''] st0) = []"
    using empty by (simp add: print_def)
  note k = load_reference_images_keys [OF e0 load]
  have look: "map_of (result st1) r = Some []" if "r \<in> fst ` set refs" for r
  proof -
    from k(1) have "set (map fst (result st1)) = set (map fst refs)" by simp
    with that have "r \<in> fst ` set (result st1)" by simp
    with k(2) show ?thesis by (rule all_empty_lookup)
  qed
  have sub: "fst ` set refs \<subseteq> fst ` set (result (print ls st1))" for ls
  proof -
    from k(1) have "set (map fst (result st1)) = set (map fst refs)" by simp
    then show ?thesis by (simp add: print_def)
  qed
  show ?thesis
  proof (cases x)
    case None
    let ?st = "traverse_file_entries w tree refs t ofo
        (print [Text ''Reference images loading completed.'',
                Text ''Disk root directory loading completed.'',
                Text (''Start scanning similar images on the disk image - '' @
                      ''it may take a long time depending on the size of disk.'')] st1)"
    have f: "find_similar_images w d folder t ofo st0 = Inr ?st"
      using fs load None by (simp add: find_similar_images_def)
    have keys: "map fst (result ?st) = map fst refs"
      using k(1) by (simp add: traverse_as_fold fold_keys print_def)
    have vals: "map_of (result ?st) r =
        Some (concat (map (\<lambda>e. found w e refs t ofo r) (leaves tree)))"
      if "r \<in> fst ` set refs" for r
    proof -
      have "map_of (result (print ls st1)) r = Some []" for ls
        using look [OF that] by (simp add: print_def)
      then show ?thesis
        by (simp add: traverse_as_fold fold_result [OF sub])
    qed
    from f keys vals k None show ?thesis
      by (simp add: fold_keys)
  next
    case (Some e)
    let ?st = "print [Text ''Error while loading image: '', ErrorDetails e, Traceback e] st1"
    have f: "find_similar_images w d folder t ofo st0 = Inr ?st"
      using fs load Some by (simp add: find_similar_images_def)
    with k look Some show ?thesis
      by (simp add: fold_keys print_def)
  qed
qed

theorem result_keys_are_references_witness:
  "OpenFileSystem (example_world example_names None) ''disk.dd'' = Inr example_root \<and>
   result initial_state = [] \<and>
   load_reference_images (example_world example_names None) ''refs''
       (print [Text ''File system parse completed.''] initial_state) =
     (None, [(''refs/r5.png'', gray 5), (''refs/r0.png'', gray 0)],
      \<lparr>result = [(''refs/r5.png'', []), (''refs/r0.png'', [])],
       out = [Text ''File system parse completed.''], saved = []\<rparr>) \<and>
   (\<exists>st. find_similar_images (example_world example_names None) ''disk.dd'' ''refs'' 1 []
            initial_state = Inr st \<and>
         map fst (result st) = [''refs/r5.png'', ''refs/r0.png''] \<and>
         map_of (result st) ''refs/r5.png'' = Some [])"
proof -
  let ?w = "example_world example_names None"
  let ?refs = "[(''refs/r5.png'', gray 5), (''refs/r0.png'', gray 0)]"
  have a: "OpenFileSystem ?w ''disk.dd'' = Inr example_root"
    by (simp add: example_world_def)
  have b: "result initial_state = []"
    by (simp add: initial_state_def)
  have c: "load_reference_images ?w ''refs''
       (print [Text ''File system parse completed.''] initial_state) =
     (None, ?refs,
      \<lparr>result = [(''refs/r5.png'', []), (''refs/r0.png'', [])],
       out = [Text ''File system parse completed.''], saved = []\<rparr>)"
    by code_simp
  have v: "concat (map (\<lambda>e. found ?w e ?refs 1 [] ''refs/r5.png'') (leaves example_root)) = []"
    by code_simp
  from result_keys_are_references [OF a b c, of 1 "[]" "[]"]
  obtain st where f: "find_similar_images ?w ''disk.dd'' ''refs'' 1 [] initial_state = Inr st"
    and keys: "map fst (result st) = map fst ?refs"
    and vals: "\<forall>r \<in> fst ` set ?refs. map_of (result st) r =
        Some (if (None :: exn option) = None
              then concat (map (\<lambda>e. found ?w e ?refs 1 [] r) (leaves example_root)) else [])"
    by blast
  from vals v have "map_of (result st) ''refs/r5.png'' = Some []"
    by simp
  with a b c f keys show ?thesis
    by auto
qed

subsection \<open>A run without reference images\<close>





subsection \<open>The final report\<close>

text \<open>Every match of \<open>result\<close> is printed, under the name of its reference.\<close>

lemma final_report_lists_matches:
  assumes "(reference_image_name, similar_images) \<in> set res" and "stat \<in> set similar_images"
  shows "Text (''For reference Image '' @ reference_image_name @ '': '') \<in> set (final_report res) \<and>
         Stat (fst stat) (snd stat) \<in> set (final_report res)"
proof -
  from assms(2) have ne: "similar_images \<noteq> []" by auto
  let ?f = "\<lambda>(reference_image_name, similar_images).
                    if length similar_images \<noteq> 0
                    then Text (''For reference Image '' @ reference_image_name @ '': '') #
                         map (\<lambda>stat. Stat (fst stat) (snd stat)) similar_images
                    else []"
  from ne assms(2) have "Text (''For reference Image '' @ reference_image_name @ '': '')
      \<in> set (?f (reference_image_name, similar_images))"
    and "Stat (fst stat) (snd stat) \<in> set (?f (reference_image_name, similar_images))"
    by auto
  with assms(1) have "Text (''For reference Image '' @ reference_image_name @ '': '')
      \<in> set (concat (map ?f res))"
    and "Stat (fst stat) (snd stat) \<in> set (concat (map ?f res))"
    by (auto simp del: length_0_conv intro!: bexI [of _ "(reference_image_name, similar_images)"])
  then show ?thesis
    by (simp add: final_report_def)
qed

text \<open>
  C7. The report prints the notice that no similar image was identified only when
  \<open>result\<close> has no key, that is when no reference was loaded. With one reference
  loaded and no match at all, the output ends with the header of the report, and the notice
  is not printed.
\<close>

theorem report_without_matches_has_no_notice:
  "scan_matches (example_world [''r5.png''] None) ''disk.dd'' ''refs'' 1 [] = [] \<and>
   main_body (example_world [''r5.png''] None) ''disk.dd'' ''refs'' 1 [] =
     (0, [Text ''File system parse completed.'',
          Text ''Reference images loading completed.'',
          Text ''Disk root directory loading completed.'',
          Text (''Start scanning similar images on the disk image - '' @
                ''it may take a long time depending on the size of disk.''),
          Text ''Error while comparing image: /bad.jpg'',
          ErrorDetails (UnidentifiedImageError ''cannot identify image file''),
          Traceback (UnidentifiedImageError ''cannot identify image file''),
          Text ''Final Report: '']) \<and>
   no_matches_notice \<notin>
     set (snd (main_body (example_world [''r5.png''] None) ''disk.dd'' ''refs'' 1 []))"
  by code_simp

subsection \<open>Images of different dimensions\<close>




subsection \<open>The threshold\<close>
















end
